theory Spec2Isabelle
  imports Complex_Main
begin

section \<open>Payday loan dashboard: calculator, session synchroniser, loader\<close>

text \<open>
  A shallow embedding of \<^verbatim>\<open>streamlit_app.py\<close>. Python numbers are modelled as
  exact reals: every formula below is the source's expression read in exact arithmetic,
  and the rounding of binary floating point is not part of the model. Python exceptions
  are values of the type \<open>exn\<close>; a computation that may raise returns \<open>exn + 'a\<close>,
  with \<open>Inl\<close> the raised exception.
\<close>

subsection \<open>Exceptions\<close>

datatype exn =
    ZeroDivisionError
  | KeyError string
  | IndexError
  | TypeError
  | AttributeError
  | ReadError string

definition and_then :: "exn + 'a \<Rightarrow> ('a \<Rightarrow> exn + 'b) \<Rightarrow> exn + 'b" where
  "and_then m k = (case m of Inl e \<Rightarrow> Inl e | Inr v \<Rightarrow> k v)"

text \<open>Python's true division \<^verbatim>\<open>a / b\<close>.\<close>

definition py_div :: "real \<Rightarrow> real \<Rightarrow> exn + real" where
  "py_div a b = (if b = 0 then Inl ZeroDivisionError else Inr (a / b))"

text \<open>Python's \<^verbatim>\<open>max(a, b)\<close>: the first argument unless the second is greater.\<close>

definition py_max :: "real \<Rightarrow> real \<Rightarrow> real" where
  "py_max a b = (if b > a then b else a)"

subsection \<open>The loan calculator (lines 43-60)\<close>

record LoanCalculator =
  loan_amount :: real
  interest :: real
  late_fee :: real
  duration :: real

definition total_repayment :: "LoanCalculator \<Rightarrow> real" where
  "total_repayment self = loan_amount self + interest self + late_fee self"

definition calculate_apr :: "LoanCalculator \<Rightarrow> exn + real" where
  "calculate_apr self =
     (if loan_amount self = 0 \<or> duration self = 0 then Inr 0
      else and_then (py_div (interest self) (loan_amount self)) (\<lambda>daily_interest.
           and_then (py_div (daily_interest * 365) (duration self)) (\<lambda>q.
           Inr (q * 100))))"

definition calculate_monthly_payment :: "LoanCalculator \<Rightarrow> exn + real" where
  "calculate_monthly_payment self =
     and_then (py_div (duration self) 30) (\<lambda>months.
     py_div (total_repayment self) (py_max months 1))"

subsection \<open>The session state synchroniser (lines 63-77)\<close>

text \<open>
  \<^verbatim>\<open>st.session_state\<close> is a dictionary from keys to numbers; reading a key that is
  not set raises \<^verbatim>\<open>KeyError\<close>.
\<close>

type_synonym session_state = "string \<rightharpoonup> real"

definition getitem :: "session_state \<Rightarrow> string \<Rightarrow> exn + real" where
  "getitem s k = (case s k of None \<Rightarrow> Inl (KeyError k) | Some v \<Rightarrow> Inr v)"

text \<open>Lines 64-67: the two defaults, each written only when its key is not set.\<close>

definition sync_defaults :: "session_state \<Rightarrow> session_state" where
  "sync_defaults s =
     (let s1 = (if s ''initial_investment'' = None then s(''initial_investment'' \<mapsto> 1000) else s)
      in if s1 ''roi_percentage'' = None then s1(''roi_percentage'' \<mapsto> 5) else s1)"

text \<open>Lines 70-74: the two handlers. The operands are read in the order Python evaluates them.\<close>

definition update_investment :: "session_state \<Rightarrow> exn + session_state" where
  "update_investment s =
     and_then (getitem s ''roi_percentage'') (\<lambda>roi.
     and_then (py_div roi 100) (\<lambda>q.
     and_then (getitem s ''investment_amount'') (\<lambda>amount.
     Inr (s(''initial_investment'' \<mapsto> q * amount)))))"

definition update_roi :: "session_state \<Rightarrow> exn + session_state" where
  "update_roi s =
     and_then (getitem s ''initial_investment'') (\<lambda>inv.
     and_then (getitem s ''investment_amount'') (\<lambda>amount.
     and_then (py_div inv amount) (\<lambda>q.
     Inr (s(''roi_percentage'' \<mapsto> q * 100)))))"

text \<open>
  Lines 76-77: a number input with a key stores the edited value under that key and then
  runs its \<^verbatim>\<open>on_change\<close> handler, before the script is run again.
\<close>

datatype edit = EditInitialInvestment real | EditRoiPercentage real

fun on_change :: "session_state \<Rightarrow> edit \<Rightarrow> exn + session_state" where
  "on_change s (EditInitialInvestment v) = update_roi (s(''initial_investment'' \<mapsto> v))"
| "on_change s (EditRoiPercentage v) = update_investment (s(''roi_percentage'' \<mapsto> v))"

subsection \<open>Tables as the loader sees them\<close>

text \<open>
  A cell of a sheet as the spreadsheet reader delivers it: empty (the missing value
  \<^verbatim>\<open>NaN\<close>), a text, or a number. A data frame is a list of column labels and a list of
  rows; a row shorter than the label list is read as padded with empty cells. Labels
  may repeat, as they may in a data frame.
\<close>

datatype cell = Empty | Text string | Number real

type_synonym row = "cell list"

record frame =
  columns :: "cell list"
  rows :: "row list"

text \<open>
  An uploaded file either cannot be opened as a workbook (line 10 raises, with some
  message), or is a workbook: sheet names, each with the frame that
  \<^verbatim>\<open>excel_data.parse\<close> returns for it.
\<close>

datatype upload = Unreadable string | Workbook "(string \<times> frame) list"

text \<open>
  What \<^verbatim>\<open>st.error\<close> shows: line 14 (\<open>MissingSheetReport\<close>), line 26
  (\<open>MissingColumnsReport\<close>), and line 39, the text \<^verbatim>\<open>Error loading data:\<close> followed
  by the exception caught (\<open>LoadErrorReport\<close>).
\<close>

datatype report = MissingSheetReport | MissingColumnsReport | LoadErrorReport exn

definition cell_at :: "row \<Rightarrow> nat \<Rightarrow> cell" where
  "cell_at r i = (if i < length r then r ! i else Empty)"

text \<open>The positions at which a label occurs among the columns.\<close>

definition positions :: "cell list \<Rightarrow> string \<Rightarrow> nat list" where
  "positions cols c = filter (\<lambda>i. cols ! i = Text c) [0..<length cols]"

definition required_columns :: "string list" where
  "required_columns = [''Loan ID'', ''Loan Amount ($C)'', ''Duration'', ''Interest ($C)'',
     ''Late Fee & Interest ($C)'', ''Total Payment ($C)'']"

definition numeric_columns :: "string list" where
  "numeric_columns = [''Loan Amount ($C)'', ''Interest ($C)'', ''Late Fee & Interest ($C)'',
     ''Total Payment ($C)'', ''Duration'']"

subsection \<open>The steps of the loader (lines 8-40)\<close>

text \<open>Line 18: the sheet of that name.\<close>

definition parse :: "(string \<times> frame) list \<Rightarrow> string \<Rightarrow> exn + frame" where
  "parse sheets name =
     (case map_of sheets name of None \<Rightarrow> Inl (ReadError name) | Some f \<Rightarrow> Inr f)"

text \<open>
  Lines 19-20: the first row becomes the column labels and is dropped from the rows;
  \<^verbatim>\<open>iloc[0]\<close> raises \<^verbatim>\<open>IndexError\<close> on a frame without rows.
\<close>

definition promote_header :: "frame \<Rightarrow> exn + frame" where
  "promote_header f =
     (case rows f of [] \<Rightarrow> Inl IndexError | h # rest \<Rightarrow> Inr \<lparr>columns = h, rows = rest\<rparr>)"

text \<open>
  Line 21: \<^verbatim>\<open>str.strip\<close> removes leading and trailing whitespace; the characters
  modelled are the ASCII ones Python counts as whitespace (codes 9 to 13 and 28 to 32).
  A label that is not a text becomes the missing value. Whether the labels offer the
  \<^verbatim>\<open>.str\<close> accessor at all is decided by the library from the types it inferred for
  the frame; that decision is the parameter \<open>has_str\<close>, and line 21 raises
  \<^verbatim>\<open>AttributeError\<close> where it is false.
\<close>

definition is_space :: "char \<Rightarrow> bool" where
  "is_space c = (let n = (of_char c :: nat) in (9 \<le> n \<and> n \<le> 13) \<or> (28 \<le> n \<and> n \<le> 32))"

definition py_strip :: "string \<Rightarrow> string" where
  "py_strip s = rev (dropWhile is_space (rev (dropWhile is_space s)))"

definition str_strip :: "cell \<Rightarrow> cell" where
  "str_strip c = (case c of Text s \<Rightarrow> Text (py_strip s) | _ \<Rightarrow> Empty)"

definition strip_columns :: "(frame \<Rightarrow> bool) \<Rightarrow> frame \<Rightarrow> exn + frame" where
  "strip_columns has_str f =
     (if has_str f then Inr (f\<lparr>columns := map str_strip (columns f)\<rparr>) else Inl AttributeError)"

text \<open>Line 25: every required label is among the columns.\<close>

definition has_columns :: "frame \<Rightarrow> string list \<Rightarrow> bool" where
  "has_columns f cs = list_all (\<lambda>c. Text c \<in> set (columns f)) cs"

text \<open>
  Line 31: \<^verbatim>\<open>pd.to_numeric(..., errors='coerce')\<close> keeps a number, turns an empty
  cell and a text that is no number into the missing value, and reads a text that is a
  number; how the library reads a text as a number is the parameter \<open>num\<close>. With a
  label that occurs more than once \<^verbatim>\<open>loan_data[col]\<close> is a frame, on which
  \<^verbatim>\<open>pd.to_numeric\<close> raises \<^verbatim>\<open>TypeError\<close>.
\<close>

definition to_numeric :: "(string \<Rightarrow> real option) \<Rightarrow> cell \<Rightarrow> cell" where
  "to_numeric num c =
     (case c of
        Empty \<Rightarrow> Empty
      | Number x \<Rightarrow> Number x
      | Text s \<Rightarrow> (case num s of None \<Rightarrow> Empty | Some x \<Rightarrow> Number x))"

definition to_numeric_column :: "(string \<Rightarrow> real option) \<Rightarrow> frame \<Rightarrow> string \<Rightarrow> exn + frame" where
  "to_numeric_column num f c =
     (case positions (columns f) c of
        [] \<Rightarrow> Inl (KeyError c)
      | [i] \<Rightarrow> Inr (f\<lparr>rows := map (\<lambda>r. r[i := to_numeric num (cell_at r i)]) (rows f)\<rparr>)
      | _ \<Rightarrow> Inl TypeError)"

text \<open>Lines 30-31: the loop over the five numeric columns.\<close>

fun to_numeric_columns :: "(string \<Rightarrow> real option) \<Rightarrow> frame \<Rightarrow> string list \<Rightarrow> exn + frame" where
  "to_numeric_columns num f [] = Inr f"
| "to_numeric_columns num f (c # cs) =
     and_then (to_numeric_column num f c) (\<lambda>f'. to_numeric_columns num f' cs)"

text \<open>
  Line 34: \<^verbatim>\<open>dropna(subset=...)\<close> keeps the rows that have no missing value in any
  column carrying one of the labels; a label that is no column raises \<^verbatim>\<open>KeyError\<close>.
\<close>

definition dropna :: "frame \<Rightarrow> string list \<Rightarrow> exn + frame" where
  "dropna f labels =
     (case filter (\<lambda>c. Text c \<notin> set (columns f)) labels of
        c # _ \<Rightarrow> Inl (KeyError c)
      | [] \<Rightarrow> Inr (f\<lparr>rows := filter (\<lambda>r. list_all (\<lambda>c. list_all (\<lambda>i. cell_at r i \<noteq> Empty)
                  (positions (columns f) c)) labels) (rows f)\<rparr>))"

text \<open>
  Line 36: selecting by a list of labels gives, label by label, every column that
  carries the label.
\<close>

definition getitem_columns :: "frame \<Rightarrow> string list \<Rightarrow> exn + frame" where
  "getitem_columns f cs =
     (case filter (\<lambda>c. Text c \<notin> set (columns f)) cs of
        c # _ \<Rightarrow> Inl (KeyError c)
      | [] \<Rightarrow> Inr \<lparr>columns = concat (map (\<lambda>c. map (\<lambda>i. columns f ! i) (positions (columns f) c)) cs),
                 rows = map (\<lambda>r. concat (map (\<lambda>c. map (cell_at r) (positions (columns f) c)) cs))
                          (rows f)\<rparr>)"

text \<open>The body of the \<^verbatim>\<open>try\<close> block, lines 10-36.\<close>

definition load_body ::
  "(string \<Rightarrow> real option) \<Rightarrow> (frame \<Rightarrow> bool) \<Rightarrow> upload \<Rightarrow> exn + (report list \<times> frame option)" where
  "load_body num has_str file =
     (case file of
        Unreadable msg \<Rightarrow> Inl (ReadError msg)
      | Workbook sheets \<Rightarrow>
          if ''Loan Data'' \<notin> set (map fst sheets) then Inr ([MissingSheetReport], None)
          else
            and_then (parse sheets ''Loan Data'') (\<lambda>parsed.
            and_then (promote_header parsed) (\<lambda>promoted.
            and_then (strip_columns has_str promoted) (\<lambda>loan_data.
              if \<not> has_columns loan_data required_columns
              then Inr ([MissingColumnsReport], None)
              else
                and_then (to_numeric_columns num loan_data numeric_columns) (\<lambda>coerced.
                and_then (dropna coerced required_columns) (\<lambda>kept.
                and_then (getitem_columns kept required_columns) (\<lambda>result.
                Inr ([], Some result))))))))"

text \<open>
  Lines 9 and 38-40: every exception of the body is caught, reported, and turned into
  \<^verbatim>\<open>None\<close>. All exceptions of the model are subclasses of \<^verbatim>\<open>Exception\<close>.
\<close>

definition load_loan_data ::
  "(string \<Rightarrow> real option) \<Rightarrow> (frame \<Rightarrow> bool) \<Rightarrow> upload \<Rightarrow> report list \<times> frame option" where
  "load_loan_data num has_str file =
     (case load_body num has_str file of
        Inl e \<Rightarrow> ([LoadErrorReport e], None)
      | Inr r \<Rightarrow> r)"

subsection \<open>The caller (lines 101-143)\<close>












subsection \<open>The loader's contract, in the words of the specification\<close>







subsection \<open>Example sheets\<close>

text \<open>
  A sheet as parsed: the labels the library took from the sheet's own first line are
  replaced on line 19 before they are read, and are left empty here. Below the header
  come two valid records, a record with a text in a numeric column, and a record
  without a loan id.
\<close>

definition example_header :: row where
  "example_header = [Text '' Loan ID'', Text ''Loan Amount ($C) '', Text ''Duration'',
     Text ''Interest ($C)'', Text ''Late Fee & Interest ($C)'', Text ''Total Payment ($C)'']"

definition example_sheet :: frame where
  "example_sheet = \<lparr>columns = [], rows =
     [example_header,
      [Text ''L1'', Number 500, Number 14, Number 75, Number 25, Number 600],
      [Text ''L2'', Text ''n/a'', Number 30, Number 50, Number 0, Number 1050],
      [Empty, Number 1000, Number 60, Number 50, Number 0, Number 1050],
      [Text ''L4'', Number 1000, Number 60, Number 50, Number 0, Number 1050]]\<rparr>"




section \<open>Properties of the calculator\<close>

lemma py_div_nonzero: "b \<noteq> 0 \<Longrightarrow> py_div a b = Inr (a / b)"
  by (simp add: py_div_def)

lemma and_then_Inr: "and_then (Inr v) k = k v"
  by (simp add: and_then_def)

lemma and_then_Inl: "and_then (Inl e) k = Inl e"
  by (simp add: and_then_def)

lemma py_max_ge_one: "1 \<le> py_max m 1"
  by (simp add: py_max_def)

lemma py_max_is_max: "py_max a b = max a b"
  by (simp add: py_max_def max_def)




text \<open>
  Claim C1, as stated, asks that \<open>calculate_apr\<close> returns 0 exactly when the loan amount or
  the duration is 0. The formula branch returns 0 as well when the interest is 0: for a
  loan of 1000 over 30 days with interest 0 the result is 0 although neither the amount
  nor the duration is 0.
\<close>

theorem calculate_apr_zero_interest_counterexample:
  "\<not> (calculate_apr \<lparr>loan_amount = 1000, interest = 0, late_fee = 0, duration = 30\<rparr> = Inr 0
       \<longleftrightarrow> ((1000::real) = 0 \<or> (30::real) = 0))"
  by (simp add: calculate_apr_def py_div_def and_then_def)

text \<open>
  Claim C1, amended: \<open>calculate_apr\<close> never raises; it returns 0 whenever the loan amount
  or the duration is 0, for any interest, and otherwise returns
  \<open>(interest / loan_amount) * 365 / duration * 100\<close> (which is itself 0 when the interest
  is 0). The zero test comes before both divisions, so neither divides by zero.
\<close>

theorem calculate_apr_formula:
  "calculate_apr self =
     Inr (if loan_amount self = 0 \<or> duration self = 0 then 0
          else (interest self / loan_amount self) * 365 / duration self * 100)"
  by (simp add: calculate_apr_def py_div_def and_then_def)

text \<open>
  Claim C2: \<open>calculate_monthly_payment\<close> returns the total repayment divided by
  \<open>max (duration / 30) 1\<close>, and never raises since the divisor is at least 1. For the
  loan (1000, 50, 0, 60) it returns 525, and a loan of duration 14 with total repayment
  600 gives 600.
\<close>

theorem calculate_monthly_payment_formula:
  "calculate_monthly_payment self = Inr (total_repayment self / max (duration self / 30) 1)
   \<and> calculate_monthly_payment
        \<lparr>loan_amount = 1000, interest = 50, late_fee = 0, duration = 60\<rparr> = Inr 525
   \<and> (duration self = 14 \<and> total_repayment self = 600
        \<longrightarrow> calculate_monthly_payment self = Inr 600)"
proof -
  have general: "calculate_monthly_payment c = Inr (total_repayment c / max (duration c / 30) 1)"
    for c
  proof -
    have "py_max (duration c / 30) 1 \<noteq> 0"
      using py_max_ge_one [of "duration c / 30"] by linarith
    then show ?thesis
      by (simp add: calculate_monthly_payment_def py_div_nonzero and_then_Inr py_max_is_max)
  qed
  have example: "calculate_monthly_payment
      \<lparr>loan_amount = 1000, interest = 50, late_fee = 0, duration = 60\<rparr> = Inr 525"
    by (simp add: general total_repayment_def)
  have short: "calculate_monthly_payment self = Inr 600"
    if "duration self = 14" "total_repayment self = 600"
    using that by (simp add: general)
  from general example short show ?thesis by blast
qed

theorem calculate_monthly_payment_formula_witness:
  "duration \<lparr>loan_amount = 500, interest = 75, late_fee = 25, duration = 14\<rparr> = 14
   \<and> total_repayment \<lparr>loan_amount = 500, interest = 75, late_fee = 25, duration = 14\<rparr> = 600
   \<and> calculate_monthly_payment
        \<lparr>loan_amount = 500, interest = 75, late_fee = 25, duration = 14\<rparr> = Inr 600"
  using calculate_monthly_payment_formula
    [of "\<lparr>loan_amount = 500, interest = 75, late_fee = 25, duration = 14\<rparr>"]
  by (simp add: total_repayment_def)


section \<open>Properties of the session synchroniser\<close>

text \<open>
  Claim C4 asks that, for any session state, editing either field recomputes the other.
  Nothing in the program ever sets the key \<^verbatim>\<open>investment_amount\<close> that both handlers
  read. In the state the program itself builds (the two defaults of lines 64-67), editing
  the ROI to 10, or the initial investment to 2000, raises \<^verbatim>\<open>KeyError\<close> in the handler
  and recomputes nothing.
\<close>

theorem on_change_without_investment_amount:
  "on_change (sync_defaults Map.empty) (EditRoiPercentage 10)
     = Inl (KeyError ''investment_amount'')
   \<and> on_change (sync_defaults Map.empty) (EditInitialInvestment 2000)
     = Inl (KeyError ''investment_amount'')"
  by (simp add: sync_defaults_def update_investment_def update_roi_def getitem_def
      and_then_def py_div_def)

text \<open>
  Where the key is set, the handlers compute what line 71 and line 74 say; the second
  needs a divisor other than 0, and raises \<^verbatim>\<open>ZeroDivisionError\<close> at 0.
\<close>

lemma edit_roi_percentage_recomputes:
  "s ''investment_amount'' = Some a \<Longrightarrow>
   on_change s (EditRoiPercentage x)
     = Inr (s(''roi_percentage'' \<mapsto> x, ''initial_investment'' \<mapsto> x / 100 * a))"
  by (simp add: update_investment_def getitem_def and_then_def py_div_def)

lemma edit_initial_investment_recomputes:
  "s ''investment_amount'' = Some a \<Longrightarrow> a \<noteq> 0 \<Longrightarrow>
   on_change s (EditInitialInvestment x)
     = Inr (s(''initial_investment'' \<mapsto> x, ''roi_percentage'' \<mapsto> x / a * 100))"
  by (simp add: update_roi_def getitem_def and_then_def py_div_def)

lemma edit_initial_investment_zero_amount:
  "s ''investment_amount'' = Some 0 \<Longrightarrow>
   on_change s (EditInitialInvestment x) = Inl ZeroDivisionError"
  by (simp add: update_roi_def getitem_def and_then_def py_div_def)

text \<open>
  In exact arithmetic the two handlers undo each other on the field the first one read.
  The program computes in binary floating point, where dividing and multiplying back
  rounds twice and need not return the value it started from; that rounding is outside
  this model, so the lemma says nothing about the floats themselves.
\<close>

lemma handlers_inverse_in_exact_arithmetic:
  assumes "s ''investment_amount'' = Some a" and "a \<noteq> 0"
  shows "s ''initial_investment'' = Some v \<longrightarrow>
           (\<exists>s'. and_then (update_roi s) update_investment = Inr s'
                 \<and> s' ''initial_investment'' = Some v)"
    and "s ''roi_percentage'' = Some r \<longrightarrow>
           (\<exists>s'. and_then (update_investment s) update_roi = Inr s'
                 \<and> s' ''roi_percentage'' = Some r)"
  using assms
  by (auto simp add: update_roi_def update_investment_def getitem_def and_then_def py_div_def)

section \<open>Properties of the loader\<close>

subsection \<open>Positions, cells and coercion\<close>













subsection \<open>The shape of every successful load\<close>












subsection \<open>Missing sheet and missing columns\<close>

text \<open>
  Claim C6: a workbook without a sheet named exactly \<^verbatim>\<open>Loan Data\<close> yields no dataset
  and the missing-sheet report of line 14.
\<close>

theorem load_missing_sheet:
  "''Loan Data'' \<notin> set (map fst sheets) \<Longrightarrow>
   load_loan_data num has_str (Workbook sheets) = ([MissingSheetReport], None)"
  by (simp add: load_loan_data_def load_body_def)

text \<open>Witness for C6: a workbook whose only sheet is named \<^verbatim>\<open>Sheet1\<close>.\<close>

theorem load_missing_sheet_witness:
  "''Loan Data'' \<notin> set (map fst [(''Sheet1'', example_sheet)])
   \<and> load_loan_data (\<lambda>s. None) (\<lambda>f. True) (Workbook [(''Sheet1'', example_sheet)])
       = ([MissingSheetReport], None)"
  using load_missing_sheet [of "[(''Sheet1'', example_sheet)]" "\<lambda>s. None" "\<lambda>f. True"]
  by simp



subsection \<open>The rows and columns of the dataset\<close>




subsection \<open>No exception leaves the loader\<close>



subsection \<open>The late fee of a loaded record\<close>




end
